theory Spec2Isabelle
  imports Main
begin

section \<open>Exceptions, outcomes and backend handles\<close>

text \<open>
  \<^verbatim>\<open>mrjob/fs/composite.py\<close> is Python 2 (\<^verbatim>\<open>except IOError, e\<close>). An exception is a value: its
  class and its message. \<^verbatim>\<open>except IOError\<close> catches \<^verbatim>\<open>IOError\<close> and every subclass of it, and
  nothing else.
\<close>

datatype exc_class =
    IOError
  | IOErrorSubclass string
  | AttributeError
  | StopIteration
  | OtherException string

datatype exc = Exc (exc_class: exc_class) (exc_message: string)

fun isinstance_IOError :: "exc \<Rightarrow> bool" where
  "isinstance_IOError (Exc IOError msg) = True"
| "isinstance_IOError (Exc (IOErrorSubclass c) msg) = True"
| "isinstance_IOError (Exc AttributeError msg) = False"
| "isinstance_IOError (Exc StopIteration msg) = False"
| "isinstance_IOError (Exc (OtherException c) msg) = False"

text \<open>A call either returns a value or raises.\<close>

datatype 'r outcome = Return 'r | Raise exc

text \<open>
  A backend method is called as \<^verbatim>\<open>m(path, *args, **kwargs)\<close>. It may change the world outside
  the Dispatcher (files, connections, the backends' own state), of type \<open>'w\<close>: the world goes
  in and the new world comes out. Argument values \<open>'a\<close> and results \<open>'r\<close> are opaque.
\<close>

type_synonym ('a, 'r, 'w) fs_method =
  "string \<Rightarrow> 'a list \<Rightarrow> (string \<times> 'a) list \<Rightarrow> 'w \<Rightarrow> 'r outcome \<times> 'w"

text \<open>
  The backends are collaborators outside \<^verbatim>\<open>composite.py\<close>; the Dispatcher uses three things
  of a backend: \<^verbatim>\<open>fs.can_handle_path(path)\<close>, a pure predicate on the path (the contract of
  the spec, section 6); \<^verbatim>\<open>getattr(fs, name)\<close>, which gives the attribute or raises, and reads
  the backend's current state; and \<^verbatim>\<open>hasattr(fs, name)\<close>, which in Python 2 is "\<^verbatim>\<open>getattr\<close>
  did not raise".
\<close>

record ('a, 'r, 'w) filesystem =
  can_handle_path :: "string \<Rightarrow> bool"
  getattr_fs :: "string \<Rightarrow> 'w \<Rightarrow> exc + ('a, 'r, 'w) fs_method"

definition hasattr :: "('a, 'r, 'w) filesystem \<Rightarrow> string \<Rightarrow> 'w \<Rightarrow> bool" where
  "hasattr fs name w = (case getattr_fs fs name w of Inl e \<Rightarrow> False | Inr m \<Rightarrow> True)"

section \<open>The Dispatcher: CompositeFilesystem\<close>

text \<open>
  \<^verbatim>\<open>__init__(self, *filesystems)\<close> stores the tuple of its arguments in \<^verbatim>\<open>self.filesystems\<close>;
  that is the only attribute the class ever sets. A method of the class is modelled as a
  function of the instance and the world that returns its outcome, the instance and the
  world after the call.
\<close>

record ('a, 'r, 'w) composite_filesystem =
  filesystems :: "('a, 'r, 'w) filesystem list"

definition init :: "('a, 'r, 'w) filesystem list \<Rightarrow> ('a, 'r, 'w) composite_filesystem" where
  "init fss = \<lparr>filesystems = fss\<rparr>"

subsection \<open>\<^verbatim>\<open>__getattr__\<close>\<close>

text \<open>
  \<^verbatim>\<open>
  def __getattr__(self, name):
      for fs in self.filesystems:
          if hasattr(fs, name):
              return getattr(fs, name)
      raise AttributeError(name)
  \<close>
  Python calls \<^verbatim>\<open>__getattr__\<close> only for a name that the ordinary lookup (instance and class
  attributes) does not find.
\<close>

fun getattr_scan ::
  "('a, 'r, 'w) filesystem list \<Rightarrow> string \<Rightarrow> 'w \<Rightarrow> exc + ('a, 'r, 'w) fs_method" where
  "getattr_scan [] name w = Inl (Exc AttributeError name)"
| "getattr_scan (fs # rest) name w =
     (if hasattr fs name w then getattr_fs fs name w else getattr_scan rest name w)"

definition getattr_composite ::
  "('a, 'r, 'w) composite_filesystem \<Rightarrow> string \<Rightarrow> 'w
    \<Rightarrow> (exc + ('a, 'r, 'w) fs_method) \<times> ('a, 'r, 'w) composite_filesystem" where
  "getattr_composite self name w = (getattr_scan (filesystems self) name w, self)"

subsection \<open>\<^verbatim>\<open>_do_action\<close>\<close>

text \<open>
  \<^verbatim>\<open>'Could not %s: %s %s' % (action, path, args)\<close>: \<^verbatim>\<open>args\<close> is a tuple, and \<^verbatim>\<open>%s\<close> of a
  tuple is the \<^verbatim>\<open>repr\<close> of its elements between parentheses, separated by a comma and a space,
  with a trailing comma for a tuple of one. The \<^verbatim>\<open>repr\<close> of an argument value is the
  parameter \<open>repr_arg\<close>.
\<close>

fun join_reprs :: "string list \<Rightarrow> string" where
  "join_reprs [] = []"
| "join_reprs [x] = x"
| "join_reprs (x # y # ys) = x @ '', '' @ join_reprs (y # ys)"

fun str_tuple :: "('a \<Rightarrow> string) \<Rightarrow> 'a list \<Rightarrow> string" where
  "str_tuple repr_arg [] = ''()''"
| "str_tuple repr_arg [x] = ''('' @ repr_arg x @ '',)''"
| "str_tuple repr_arg (x # y # ys) = ''('' @ join_reprs (map repr_arg (x # y # ys)) @ '')''"

definition could_not_message :: "('a \<Rightarrow> string) \<Rightarrow> string \<Rightarrow> string \<Rightarrow> 'a list \<Rightarrow> string" where
  "could_not_message repr_arg action path args =
     ''Could not '' @ action @ '': '' @ path @ '' '' @ str_tuple repr_arg args"

text \<open>
  \<^verbatim>\<open>getattr(fs, action)(path, *args, **kwargs)\<close>: the attribute lookup and the call are both
  inside the \<^verbatim>\<open>try\<close>, so what the lookup raises is handled like what the call raises.
\<close>

definition call_attribute ::
  "exc + ('a, 'r, 'w) fs_method \<Rightarrow> string \<Rightarrow> 'a list \<Rightarrow> (string \<times> 'a) list \<Rightarrow> 'w
    \<Rightarrow> 'r outcome \<times> 'w" where
  "call_attribute looked_up path args kwargs w =
     (case looked_up of
        Inl e \<Rightarrow> (Raise e, w)
      | Inr m \<Rightarrow> m path args kwargs w)"

definition call_action ::
  "('a, 'r, 'w) filesystem \<Rightarrow> string \<Rightarrow> string \<Rightarrow> 'a list \<Rightarrow> (string \<times> 'a) list \<Rightarrow> 'w
    \<Rightarrow> 'r outcome \<times> 'w" where
  "call_action fs action path args kwargs w =
     call_attribute (getattr_fs fs action w) path args kwargs w"

text \<open>
  \<^verbatim>\<open>
  first_exception = None
  for fs in self.filesystems:
      if fs.can_handle_path(path):
          try:
              return getattr(fs, action)(path, *args, **kwargs)
          except IOError, e:
              if first_exception is None:
                  first_exception = e
  if first_exception is None:
      raise IOError('Could not %s: %s %s' % (action, path, args))
  else:
      raise first_exception
  \<close>
  The loop is a recursion over the backends still to visit, with \<^verbatim>\<open>first_exception\<close> and the
  world as its state.
\<close>

fun do_action_loop ::
  "('a \<Rightarrow> string) \<Rightarrow> string \<Rightarrow> string \<Rightarrow> 'a list \<Rightarrow> (string \<times> 'a) list
    \<Rightarrow> ('a, 'r, 'w) filesystem list \<Rightarrow> exc option \<Rightarrow> 'w \<Rightarrow> 'r outcome \<times> 'w" where
  "do_action_loop repr_arg action path args kwargs [] first_exception w =
     (case first_exception of
        None \<Rightarrow> (Raise (Exc IOError (could_not_message repr_arg action path args)), w)
      | Some e \<Rightarrow> (Raise e, w))"
| "do_action_loop repr_arg action path args kwargs (fs # rest) first_exception w =
     (if can_handle_path fs path then
        (case call_action fs action path args kwargs w of
           (Return v, w') \<Rightarrow> (Return v, w')
         | (Raise e, w') \<Rightarrow>
             if isinstance_IOError e then
               do_action_loop repr_arg action path args kwargs rest
                 (if first_exception = None then Some e else first_exception) w'
             else (Raise e, w'))
      else do_action_loop repr_arg action path args kwargs rest first_exception w)"

definition do_action ::
  "('a \<Rightarrow> string) \<Rightarrow> ('a, 'r, 'w) composite_filesystem \<Rightarrow> string \<Rightarrow> string \<Rightarrow> 'a list
    \<Rightarrow> (string \<times> 'a) list \<Rightarrow> 'w \<Rightarrow> 'r outcome \<times> ('a, 'r, 'w) composite_filesystem \<times> 'w" where
  "do_action repr_arg self action path args kwargs w =
     (case do_action_loop repr_arg action path args kwargs (filesystems self) None w of
        (r, w') \<Rightarrow> (r, self, w'))"

subsection \<open>The pass-through operations\<close>

text \<open>Each is \<^verbatim>\<open>return self._do_action('<name>', path)\<close>; \<^verbatim>\<open>path_join\<close> passes \<^verbatim>\<open>filename\<close> on.\<close>

definition du ::
  "('a \<Rightarrow> string) \<Rightarrow> ('a, 'r, 'w) composite_filesystem \<Rightarrow> string \<Rightarrow> 'w
    \<Rightarrow> 'r outcome \<times> ('a, 'r, 'w) composite_filesystem \<times> 'w" where
  "du repr_arg self path_glob w = do_action repr_arg self ''du'' path_glob [] [] w"

definition ls ::
  "('a \<Rightarrow> string) \<Rightarrow> ('a, 'r, 'w) composite_filesystem \<Rightarrow> string \<Rightarrow> 'w
    \<Rightarrow> 'r outcome \<times> ('a, 'r, 'w) composite_filesystem \<times> 'w" where
  "ls repr_arg self path_glob w = do_action repr_arg self ''ls'' path_glob [] [] w"

definition mkdir ::
  "('a \<Rightarrow> string) \<Rightarrow> ('a, 'r, 'w) composite_filesystem \<Rightarrow> string \<Rightarrow> 'w
    \<Rightarrow> 'r outcome \<times> ('a, 'r, 'w) composite_filesystem \<times> 'w" where
  "mkdir repr_arg self path w = do_action repr_arg self ''mkdir'' path [] [] w"

definition path_exists ::
  "('a \<Rightarrow> string) \<Rightarrow> ('a, 'r, 'w) composite_filesystem \<Rightarrow> string \<Rightarrow> 'w
    \<Rightarrow> 'r outcome \<times> ('a, 'r, 'w) composite_filesystem \<times> 'w" where
  "path_exists repr_arg self path_glob w = do_action repr_arg self ''path_exists'' path_glob [] [] w"

definition path_join ::
  "('a \<Rightarrow> string) \<Rightarrow> ('a, 'r, 'w) composite_filesystem \<Rightarrow> string \<Rightarrow> 'a \<Rightarrow> 'w
    \<Rightarrow> 'r outcome \<times> ('a, 'r, 'w) composite_filesystem \<times> 'w" where
  "path_join repr_arg self dirname filename w =
     do_action repr_arg self ''path_join'' dirname [filename] [] w"

definition rm ::
  "('a \<Rightarrow> string) \<Rightarrow> ('a, 'r, 'w) composite_filesystem \<Rightarrow> string \<Rightarrow> 'w
    \<Rightarrow> 'r outcome \<times> ('a, 'r, 'w) composite_filesystem \<times> 'w" where
  "rm repr_arg self path_glob w = do_action repr_arg self ''rm'' path_glob [] [] w"

definition touchz ::
  "('a \<Rightarrow> string) \<Rightarrow> ('a, 'r, 'w) composite_filesystem \<Rightarrow> string \<Rightarrow> 'w
    \<Rightarrow> 'r outcome \<times> ('a, 'r, 'w) composite_filesystem \<times> 'w" where
  "touchz repr_arg self path w = do_action repr_arg self ''touchz'' path [] [] w"

definition md5sum ::
  "('a \<Rightarrow> string) \<Rightarrow> ('a, 'r, 'w) composite_filesystem \<Rightarrow> string \<Rightarrow> 'w
    \<Rightarrow> 'r outcome \<times> ('a, 'r, 'w) composite_filesystem \<times> 'w" where
  "md5sum repr_arg self path_glob w = do_action repr_arg self ''md5sum'' path_glob [] [] w"

text \<open>
  The eight operations as one type, so that a statement can range over all of them:
  the name of each and the extra positional arguments it passes.
\<close>

datatype 'a operation =
  Du | Ls | Mkdir | PathExists | PathJoin 'a | Rm | Touchz | Md5sum

fun run_operation ::
  "('a \<Rightarrow> string) \<Rightarrow> ('a, 'r, 'w) composite_filesystem \<Rightarrow> 'a operation \<Rightarrow> string \<Rightarrow> 'w
    \<Rightarrow> 'r outcome \<times> ('a, 'r, 'w) composite_filesystem \<times> 'w" where
  "run_operation repr_arg self Du path w = du repr_arg self path w"
| "run_operation repr_arg self Ls path w = ls repr_arg self path w"
| "run_operation repr_arg self Mkdir path w = mkdir repr_arg self path w"
| "run_operation repr_arg self PathExists path w = path_exists repr_arg self path w"
| "run_operation repr_arg self (PathJoin filename) path w = path_join repr_arg self path filename w"
| "run_operation repr_arg self Rm path w = rm repr_arg self path w"
| "run_operation repr_arg self Touchz path w = touchz repr_arg self path w"
| "run_operation repr_arg self Md5sum path w = md5sum repr_arg self path w"

fun operation_name :: "'a operation \<Rightarrow> string" where
  "operation_name Du = ''du''"
| "operation_name Ls = ''ls''"
| "operation_name Mkdir = ''mkdir''"
| "operation_name PathExists = ''path_exists''"
| "operation_name (PathJoin filename) = ''path_join''"
| "operation_name Rm = ''rm''"
| "operation_name Touchz = ''touchz''"
| "operation_name Md5sum = ''md5sum''"

fun operation_args :: "'a operation \<Rightarrow> 'a list" where
  "operation_args (PathJoin filename) = [filename]"
| "operation_args Du = []"
| "operation_args Ls = []"
| "operation_args Mkdir = []"
| "operation_args PathExists = []"
| "operation_args Rm = []"
| "operation_args Touchz = []"
| "operation_args Md5sum = []"

subsection \<open>\<^verbatim>\<open>_cat_file\<close>\<close>

text \<open>
  \<^verbatim>\<open>
  def _cat_file(self, path):
      for line in self._do_action('_cat_file', path):
          yield line
  \<close>
  A generator function: calling it runs none of its body and returns a generator object,
  here in the state \<open>GenCreated\<close>. Each \<^verbatim>\<open>next()\<close> runs the body up to the next \<^verbatim>\<open>yield\<close>:
  the first one evaluates \<^verbatim>\<open>self._do_action('_cat_file', path)\<close> and starts iterating over what
  it returned. A generator whose body has ended, by falling off its end or by an exception,
  is closed, and \<^verbatim>\<open>next()\<close> on a closed generator raises \<^verbatim>\<open>StopIteration\<close>.

  What a backend's \<^verbatim>\<open>_cat_file\<close> returns is iterated once, item by item; it is modelled as the
  finite list of what its successive \<^verbatim>\<open>next()\<close> calls give: a line, or an exception raised
  while reading. The end of the list is the \<^verbatim>\<open>StopIteration\<close> of an exhausted iterator.
\<close>

datatype 'l stream_item = Line 'l | StreamError exc

datatype 'l generator = GenCreated string | GenSuspended "'l stream_item list" | GenClosed

definition cat_file ::
  "('a, 'l stream_item list, 'w) composite_filesystem \<Rightarrow> string \<Rightarrow> 'w
    \<Rightarrow> 'l generator outcome \<times> ('a, 'l stream_item list, 'w) composite_filesystem \<times> 'w" where
  "cat_file self path w = (Return (GenCreated path), self, w)"

text \<open>
  One turn of the \<^verbatim>\<open>for\<close> loop, up to the \<^verbatim>\<open>yield\<close> or to the end of the body. The \<^verbatim>\<open>for\<close>
  statement takes a \<^verbatim>\<open>StopIteration\<close> from the iterator, whatever its message, as the end of the
  stream: the loop and the body end, and the generator raises a \<^verbatim>\<open>StopIteration\<close> of its own,
  without message. Any other exception from the iterator leaves the body as it is.
\<close>

fun resume :: "'l stream_item list \<Rightarrow> 'l outcome \<times> 'l generator" where
  "resume [] = (Raise (Exc StopIteration []), GenClosed)"
| "resume (Line l # rest) = (Return l, GenSuspended rest)"
| "resume (StreamError e # rest) =
     (if exc_class e = StopIteration then (Raise (Exc StopIteration []), GenClosed)
      else (Raise e, GenClosed))"

fun gen_next ::
  "('a \<Rightarrow> string) \<Rightarrow> ('a, 'l stream_item list, 'w) composite_filesystem \<Rightarrow> 'l generator \<Rightarrow> 'w
    \<Rightarrow> 'l outcome \<times> 'l generator \<times> ('a, 'l stream_item list, 'w) composite_filesystem \<times> 'w" where
  "gen_next repr_arg self (GenCreated path) w =
     (case do_action repr_arg self ''_cat_file'' path [] [] w of
        (Return stream, self', w') \<Rightarrow> (case resume stream of (r, g) \<Rightarrow> (r, g, self', w'))
      | (Raise e, self', w') \<Rightarrow> (Raise e, GenClosed, self', w'))"
| "gen_next repr_arg self (GenSuspended stream) w =
     (case resume stream of (r, g) \<Rightarrow> (r, g, self, w))"
| "gen_next repr_arg self GenClosed w = (Raise (Exc StopIteration []), GenClosed, self, w)"

text \<open>A caller asking \<open>n\<close> times for the next line: what each request gave, in order.\<close>

fun gen_nexts ::
  "nat \<Rightarrow> ('a \<Rightarrow> string) \<Rightarrow> ('a, 'l stream_item list, 'w) composite_filesystem \<Rightarrow> 'l generator \<Rightarrow> 'w
    \<Rightarrow> 'l outcome list \<times> 'l generator \<times> ('a, 'l stream_item list, 'w) composite_filesystem \<times> 'w"
  where
  "gen_nexts 0 repr_arg self g w = ([], g, self, w)"
| "gen_nexts (Suc n) repr_arg self g w =
     (case gen_next repr_arg self g w of
        (r, g', self', w') \<Rightarrow>
          (case gen_nexts n repr_arg self' g' w' of
             (rs, g'', self'', w'') \<Rightarrow> (r # rs, g'', self'', w'')))"

section \<open>What a caller sees of a failure\<close>

text \<open>The kind of a failure is its class: what \<^verbatim>\<open>except <Class>\<close> matches on.\<close>

fun raised_class :: "'r outcome \<Rightarrow> exc_class option" where
  "raised_class (Return v) = None"
| "raised_class (Raise e) = Some (exc_class e)"

section \<open>Which backends a dispatch tries\<close>

text \<open>
  The loop tries a capable backend only when every capable backend before it has raised an
  I/O-class failure. \<open>candidates_io_fail\<close> says that of a stretch of the registry, visited
  from the world \<open>w\<close>: when every capable backend of the stretch, called in its turn, raises
  an I/O-class failure, it gives those failures in the order raised and the world they
  leave; otherwise \<open>None\<close>.
\<close>

fun candidates_io_fail ::
  "string \<Rightarrow> string \<Rightarrow> 'a list \<Rightarrow> (string \<times> 'a) list \<Rightarrow> ('a, 'r, 'w) filesystem list \<Rightarrow> 'w
    \<Rightarrow> (exc list \<times> 'w) option" where
  "candidates_io_fail action path args kwargs [] w = Some ([], w)"
| "candidates_io_fail action path args kwargs (fs # rest) w =
     (if can_handle_path fs path then
        (case call_action fs action path args kwargs w of
           (Return v, w') \<Rightarrow> None
         | (Raise e, w') \<Rightarrow>
             if isinstance_IOError e then
               (case candidates_io_fail action path args kwargs rest w' of
                  None \<Rightarrow> None
                | Some (es, w'') \<Rightarrow> Some (e # es, w''))
             else None)
      else candidates_io_fail action path args kwargs rest w)"

section \<open>Concrete backends for the examples\<close>

text \<open>
  In the examples an argument value is a string, a result is a number, and the world is the
  list of the backend calls made so far, oldest first: a backend method appends its tag when
  it is called, and does nothing else.
\<close>

definition ex_repr :: "string \<Rightarrow> string" where
  "ex_repr s = CHR 0x27 # s @ [CHR 0x27]"

definition ex_returns :: "string \<Rightarrow> 'r \<Rightarrow> (string, 'r, string list) fs_method" where
  "ex_returns tag v = (\<lambda>path args kwargs w. (Return v, w @ [tag]))"

definition ex_raises :: "string \<Rightarrow> exc \<Rightarrow> (string, 'r, string list) fs_method" where
  "ex_raises tag e = (\<lambda>path args kwargs w. (Raise e, w @ [tag]))"

text \<open>A backend given by its ownership predicate and the table of its methods.\<close>

definition ex_backend ::
  "(string \<Rightarrow> bool) \<Rightarrow> (string \<times> (string, 'r, string list) fs_method) list
    \<Rightarrow> (string, 'r, string list) filesystem" where
  "ex_backend owns table =
     \<lparr>can_handle_path = owns,
      getattr_fs = (\<lambda>name w. case map_of table name of
                                None \<Rightarrow> Inl (Exc AttributeError name)
                              | Some m \<Rightarrow> Inr m)\<rparr>"

text \<open>A local backend that owns absolute paths and an object store that owns \<^verbatim>\<open>s3://\<close> URIs.\<close>

definition ex_local :: "(string, nat, string list) filesystem" where
  "ex_local = ex_backend (\<lambda>p. take 1 p = ''/'') [(''rm'', ex_returns ''local.rm'' 0)]"

definition ex_s3 :: "(string, nat, string list) filesystem" where
  "ex_s3 = ex_backend (\<lambda>p. take 5 p = ''s3://'') [(''rm'', ex_returns ''s3.rm'' 0)]"

text \<open>Backends that own every path: one that is down, one that answers, and so on.\<close>

definition ex_down :: "(string, nat, string list) filesystem" where
  "ex_down = ex_backend (\<lambda>p. True)
     [(''du'', ex_raises ''down.du'' (Exc IOError ''down: connection refused'')),
      (''rm'', ex_raises ''down.rm'' (Exc IOError ''down: connection refused''))]"

definition ex_also_down :: "(string, nat, string list) filesystem" where
  "ex_also_down = ex_backend (\<lambda>p. True)
     [(''du'', ex_raises ''also_down.du'' (Exc (IOErrorSubclass ''SSHError'') ''also_down: timeout''))]"

definition ex_up :: "(string, nat, string list) filesystem" where
  "ex_up = ex_backend (\<lambda>p. True) [(''du'', ex_returns ''up.du'' 42)]"

definition ex_spare :: "(string, nat, string list) filesystem" where
  "ex_spare = ex_backend (\<lambda>p. True) [(''du'', ex_returns ''spare.du'' 7)]"

definition ex_misused :: "(string, nat, string list) filesystem" where
  "ex_misused = ex_backend (\<lambda>p. True)
     [(''du'', ex_raises ''misused.du'' (Exc (OtherException ''ValueError'') ''bad glob''))]"

text \<open>
  Backends with an operation outside the Dispatcher's surface, \<^verbatim>\<open>get_hadoop_version\<close>:
  \<open>ex_hadoop\<close> always has it; \<open>ex_late\<close> has it once \<^verbatim>\<open>late.load\<close> has happened in the world.
\<close>

definition ex_hadoop :: "(string, nat, string list) filesystem" where
  "ex_hadoop = ex_backend (\<lambda>p. take 7 p = ''hdfs://'')
     [(''get_hadoop_version'', ex_returns ''hadoop.get_hadoop_version'' 2)]"


definition ex_hadoop_down :: "(string, nat, string list) filesystem" where
  "ex_hadoop_down = ex_backend (\<lambda>p. False)
     [(''get_hadoop_version'',
       ex_raises ''hadoop_down.get_hadoop_version'' (Exc IOError ''no hadoop binary''))]"

text \<open>Backends for reading lines: one that cannot open, one whose stream breaks after two lines.\<close>

definition ex_cannot_open :: "(string, string stream_item list, string list) filesystem" where
  "ex_cannot_open = ex_backend (\<lambda>p. True)
     [(''_cat_file'', ex_raises ''cannot_open._cat_file'' (Exc IOError ''cannot open''))]"

definition ex_breaks :: "(string, string stream_item list, string list) filesystem" where
  "ex_breaks = ex_backend (\<lambda>p. True)
     [(''_cat_file'', ex_returns ''breaks._cat_file''
         [Line ''one'', Line ''two'', StreamError (Exc IOError ''connection reset''), Line ''three''])]"

definition ex_elsewhere :: "(string, string stream_item list, string list) filesystem" where
  "ex_elsewhere = ex_backend (\<lambda>p. take 5 p = ''s3://'')
     [(''_cat_file'', ex_returns ''elsewhere._cat_file'' [Line ''zero''])]"

definition ex_fails_first :: "(string, string stream_item list, string list) filesystem" where
  "ex_fails_first = ex_backend (\<lambda>p. True)
     [(''_cat_file'', ex_returns ''fails_first._cat_file''
         [StreamError (Exc IOError ''read error''), Line ''late''])]"

definition ex_empty :: "(string, string stream_item list, string list) filesystem" where
  "ex_empty = ex_backend (\<lambda>p. True) [(''_cat_file'', ex_returns ''empty._cat_file'' [])]"

definition ex_reads :: "(string, string stream_item list, string list) filesystem" where
  "ex_reads = ex_backend (\<lambda>p. True)
     [(''_cat_file'', ex_returns ''reads._cat_file'' [Line ''one'', Line ''two'', Line ''three''])]"

section \<open>Properties of the dispatch loop\<close>

lemma run_operation_do_action:
  "run_operation repr_arg self operation path w =
     do_action repr_arg self (operation_name operation) path (operation_args operation) [] w"
  by (cases operation)
     (simp_all add: du_def ls_def mkdir_def path_exists_def path_join_def rm_def touchz_def
        md5sum_def)

lemma do_action_loop_no_candidate:
  "\<forall>fs \<in> set fss. \<not> can_handle_path fs path \<Longrightarrow>
   do_action_loop repr_arg action path args kwargs fss first_exception w =
     do_action_loop repr_arg action path args kwargs [] first_exception w"
  by (induction fss) simp_all

text \<open>Every failure that \<open>candidates_io_fail\<close> collects is of the I/O class.\<close>

lemma candidates_io_fail_all_io:
  "candidates_io_fail action path args kwargs fss w = Some (es, w1) \<Longrightarrow>
   \<forall>e \<in> set es. isinstance_IOError e"
  by (induction fss arbitrary: w es)
     (auto split: if_splits prod.splits outcome.splits option.splits)

text \<open>
  The first capable backend of a stretch where every capable backend fails is called in the
  world the dispatch started in, and its failure heads the list.
\<close>

lemma candidates_io_fail_find:
  "candidates_io_fail action path args kwargs fss w = Some (es, w1) \<Longrightarrow>
   find (\<lambda>fs. can_handle_path fs path) fss = Some b \<Longrightarrow>
   es \<noteq> [] \<and> fst (call_action b action path args kwargs w) = Raise (hd es)"
  by (induction fss arbitrary: w es)
     (auto split: if_splits prod.splits outcome.splits option.splits)

text \<open>
  After a stretch where every capable backend raised an I/O-class failure, the loop goes on
  with the rest of the registry, in the world those calls left, and \<^verbatim>\<open>first_exception\<close> holds
  the first of the failures unless it was set before.
\<close>

lemma do_action_loop_append:
  "candidates_io_fail action path args kwargs pre w = Some (es, w1) \<Longrightarrow>
   do_action_loop repr_arg action path args kwargs (pre @ rest) first_exception w =
   do_action_loop repr_arg action path args kwargs rest
     (case first_exception of
        None \<Rightarrow> (case es of [] \<Rightarrow> None | e # es' \<Rightarrow> Some e)
      | Some x \<Rightarrow> Some x) w1"
proof (induction pre arbitrary: first_exception w es)
  case Nil
  then show ?case by (cases first_exception) simp_all
next
  case (Cons fs pre)
  show ?case
  proof (cases "can_handle_path fs path")
    case False
    with Cons show ?thesis by simp
  next
    case True
    with Cons.prems obtain e w' es' where
      call: "call_action fs action path args kwargs w = (Raise e, w')" and
      io: "isinstance_IOError e" and
      rest: "candidates_io_fail action path args kwargs pre w' = Some (es', w1)" and
      es: "es = e # es'"
      by (auto split: prod.splits outcome.splits if_splits option.splits)
    from Cons.IH [OF rest] True call io es show ?thesis
      by (cases first_exception) (simp_all split: list.splits)
  qed
qed

lemma do_action_loop_reaches:
  assumes "candidates_io_fail action path args kwargs pre w = Some (es, w1)"
    and "can_handle_path b path"
  shows "do_action_loop repr_arg action path args kwargs (pre @ b # post) None w =
           (case call_action b action path args kwargs w1 of
              (Return v, w2) \<Rightarrow> (Return v, w2)
            | (Raise e, w2) \<Rightarrow>
                if isinstance_IOError e then
                  do_action_loop repr_arg action path args kwargs post
                    (case es of [] \<Rightarrow> Some e | e1 # es' \<Rightarrow> Some e1) w2
                else (Raise e, w2))"
  using assms(2)
  by (simp add: do_action_loop_append [OF assms(1)] split: list.splits prod.splits outcome.splits)

text \<open>
  Conversely the loop returns a value only in that way: some capable backend returned it,
  called when every capable backend before it had raised an I/O-class failure.
\<close>

lemma do_action_loop_returnD:
  "do_action_loop repr_arg action path args kwargs fss first_exception w = (Return v, w2) \<Longrightarrow>
   \<exists>pre b post es w1.
     fss = pre @ b # post
     \<and> candidates_io_fail action path args kwargs pre w = Some (es, w1)
     \<and> can_handle_path b path
     \<and> call_action b action path args kwargs w1 = (Return v, w2)"
proof (induction fss arbitrary: first_exception w)
  case Nil
  then show ?case by (simp split: option.splits)
next
  case (Cons fs rest)
  show ?case
  proof (cases "can_handle_path fs path")
    case False
    with Cons.prems have
      "do_action_loop repr_arg action path args kwargs rest first_exception w = (Return v, w2)"
      by simp
    from Cons.IH [OF this] obtain pre b post es w1 where
      "rest = pre @ b # post"
      "candidates_io_fail action path args kwargs pre w = Some (es, w1)"
      "can_handle_path b path"
      "call_action b action path args kwargs w1 = (Return v, w2)"
      by blast
    with False have
      "fs # rest = (fs # pre) @ b # post
       \<and> candidates_io_fail action path args kwargs (fs # pre) w = Some (es, w1)
       \<and> can_handle_path b path
       \<and> call_action b action path args kwargs w1 = (Return v, w2)"
      by simp
    then show ?thesis by blast
  next
    case True
    obtain r w' where call: "call_action fs action path args kwargs w = (r, w')"
      by (cases "call_action fs action path args kwargs w")
    show ?thesis
    proof (cases r)
      case (Return v')
      with True call Cons.prems have "v' = v" "w' = w2" by simp_all
      with True call Return have
        "fs # rest = [] @ fs # rest
         \<and> candidates_io_fail action path args kwargs [] w = Some ([], w)
         \<and> can_handle_path fs path
         \<and> call_action fs action path args kwargs w = (Return v, w2)"
        by simp
      then show ?thesis by blast
    next
      case (Raise e)
      with True call Cons.prems have io: "isinstance_IOError e"
        by (auto split: if_splits)
      with True call Raise Cons.prems have
        "do_action_loop repr_arg action path args kwargs rest
           (if first_exception = None then Some e else first_exception) w' = (Return v, w2)"
        by simp
      from Cons.IH [OF this] obtain pre b post es w1 where
        "rest = pre @ b # post"
        "candidates_io_fail action path args kwargs pre w' = Some (es, w1)"
        "can_handle_path b path"
        "call_action b action path args kwargs w1 = (Return v, w2)"
        by blast
      with True call Raise io have
        "fs # rest = (fs # pre) @ b # post
         \<and> candidates_io_fail action path args kwargs (fs # pre) w = Some (e # es, w1)
         \<and> can_handle_path b path
         \<and> call_action b action path args kwargs w1 = (Return v, w2)"
        by simp
      then show ?thesis by blast
    qed
  qed
qed

subsection \<open>The first success wins\<close>

text \<open>
  C1. For every path and each of the eight pass-through operations: when a capable backend
  \<open>b\<close> succeeds, that is, it is called in its turn (every capable backend before it in the
  registry has raised an I/O-class failure) and returns \<open>v\<close>, the Dispatcher returns \<open>v\<close>
  unchanged, and nothing of the earlier failures \<open>es\<close>. The world is the one \<open>b\<close> left:
  no backend after \<open>b\<close> is called, and the same dispatch on the registry cut after \<open>b\<close>
  gives the same outcome and the same world.
\<close>

theorem first_success_returned:
  assumes "filesystems self = pre @ b # post"
    and "candidates_io_fail (operation_name operation) path (operation_args operation) [] pre w
           = Some (es, w1)"
    and "can_handle_path b path"
    and "call_action b (operation_name operation) path (operation_args operation) [] w1
           = (Return v, w2)"
  shows "run_operation repr_arg self operation path w = (Return v, self, w2)
       \<and> run_operation repr_arg (self\<lparr>filesystems := pre @ [b]\<rparr>) operation path w
           = (Return v, self\<lparr>filesystems := pre @ [b]\<rparr>, w2)"
  using assms(1) assms(4)
  by (simp add: run_operation_do_action do_action_def
        do_action_loop_reaches [OF assms(2) assms(3)])

theorem first_success_returned_witness:
  "candidates_io_fail ''du'' ''s3://logs/part-0'' [] [] [ex_local, ex_down] []
     = Some ([Exc IOError ''down: connection refused''], [''down.du''])
   \<and> can_handle_path ex_up ''s3://logs/part-0''
   \<and> call_action ex_up ''du'' ''s3://logs/part-0'' [] [] [''down.du'']
       = (Return 42, [''down.du'', ''up.du''])
   \<and> run_operation ex_repr (init [ex_local, ex_down, ex_up, ex_spare]) Du ''s3://logs/part-0'' []
       = (Return 42, init [ex_local, ex_down, ex_up, ex_spare], [''down.du'', ''up.du''])"
proof -
  have reg: "filesystems (init [ex_local, ex_down, ex_up, ex_spare])
               = [ex_local, ex_down] @ ex_up # [ex_spare]"
    by (simp add: init_def)
  have pre: "candidates_io_fail (operation_name Du) ''s3://logs/part-0'' (operation_args Du) []
               [ex_local, ex_down] []
             = Some ([Exc IOError ''down: connection refused''], [''down.du''])"
    by (simp add: ex_local_def ex_down_def ex_backend_def ex_raises_def call_action_def
          call_attribute_def)
  have own: "can_handle_path ex_up ''s3://logs/part-0''"
    by (simp add: ex_up_def ex_backend_def)
  have call: "call_action ex_up (operation_name Du) ''s3://logs/part-0'' (operation_args Du) []
                [''down.du'']
              = (Return 42, [''down.du'', ''up.du''])"
    by (simp add: ex_up_def ex_backend_def ex_returns_def call_action_def call_attribute_def)
  show ?thesis
    using pre own call first_success_returned [OF reg pre own call, of ex_repr]
    by simp
qed

subsection \<open>The first failure is the one raised again\<close>

text \<open>
  C2. For every path and each pass-through operation: when every capable backend, called in
  its turn, raises an I/O-class failure, and \<open>b\<close> is the first capable backend of the
  registry, the Dispatcher raises the very exception value that \<open>b\<close> raised (class and
  message as they were), whatever the later backends raised; the world is the one left by
  the last of the calls.
\<close>

theorem first_failure_reraised:
  assumes "candidates_io_fail (operation_name operation) path (operation_args operation) []
             (filesystems self) w = Some (es, w1)"
    and "find (\<lambda>fs. can_handle_path fs path) (filesystems self) = Some b"
  shows "\<exists>e. fst (call_action b (operation_name operation) path (operation_args operation) [] w)
                = Raise e
             \<and> isinstance_IOError e
             \<and> run_operation repr_arg self operation path w = (Raise e, self, w1)"
proof -
  from candidates_io_fail_find [OF assms] obtain e es' where
    es: "es = e # es'" and
    first: "fst (call_action b (operation_name operation) path (operation_args operation) [] w)
              = Raise e"
    by (cases es) auto
  from candidates_io_fail_all_io [OF assms(1)] es have io: "isinstance_IOError e"
    by simp
  from do_action_loop_append [OF assms(1), of repr_arg "[]" None] es
  have "run_operation repr_arg self operation path w = (Raise e, self, w1)"
    by (simp add: run_operation_do_action do_action_def)
  with first io show ?thesis by blast
qed

theorem first_failure_reraised_witness:
  "candidates_io_fail ''du'' ''s3://logs/part-0'' [] [] [ex_local, ex_down, ex_also_down] []
     = Some ([Exc IOError ''down: connection refused'',
              Exc (IOErrorSubclass ''SSHError'') ''also_down: timeout''],
             [''down.du'', ''also_down.du''])
   \<and> find (\<lambda>fs. can_handle_path fs ''s3://logs/part-0'') [ex_local, ex_down, ex_also_down]
       = Some ex_down
   \<and> run_operation ex_repr (init [ex_local, ex_down, ex_also_down]) Du ''s3://logs/part-0'' []
       = (Raise (Exc IOError ''down: connection refused''),
          init [ex_local, ex_down, ex_also_down], [''down.du'', ''also_down.du''])"
proof -
  have all_fail:
    "candidates_io_fail (operation_name Du) ''s3://logs/part-0'' (operation_args Du) []
       (filesystems (init [ex_local, ex_down, ex_also_down])) []
     = Some ([Exc IOError ''down: connection refused'',
              Exc (IOErrorSubclass ''SSHError'') ''also_down: timeout''],
             [''down.du'', ''also_down.du''])"
    by (simp add: init_def ex_local_def ex_down_def ex_also_down_def ex_backend_def ex_raises_def
          call_action_def call_attribute_def)
  have first:
    "find (\<lambda>fs. can_handle_path fs ''s3://logs/part-0'')
       (filesystems (init [ex_local, ex_down, ex_also_down])) = Some ex_down"
    by (simp add: init_def ex_local_def ex_down_def ex_backend_def)
  have call: "fst (call_action ex_down (operation_name Du) ''s3://logs/part-0'' (operation_args Du) [] [])
     = Raise (Exc IOError ''down: connection refused'')"
    by (simp add: ex_down_def ex_backend_def ex_raises_def call_action_def call_attribute_def)
  show ?thesis
    using all_fail first call first_failure_reraised [OF all_fail first, of ex_repr]
    by (simp add: init_def)
qed

subsection \<open>No backend claims the path\<close>

text \<open>
  C3. When every backend of the registry declines the path (in particular when the registry
  is empty), each of the eight pass-through operations raises the same generic failure,
  an \<^verbatim>\<open>IOError\<close> whose message is \<^verbatim>\<open>Could not <operation>: <path> <args>\<close>, so it names the
  operation and the path; the Dispatcher and the world are left as they were, and no backend
  method is looked up or called.
\<close>

theorem unclaimed_path_generic_failure:
  assumes "\<forall>fs \<in> set (filesystems self). \<not> can_handle_path fs path"
  shows "run_operation repr_arg self operation path w =
           (Raise (Exc IOError (''Could not '' @ operation_name operation @ '': '' @ path @ '' ''
                      @ str_tuple repr_arg (operation_args operation))), self, w)"
  using do_action_loop_no_candidate [OF assms]
  by (simp add: run_operation_do_action do_action_def could_not_message_def)

theorem unclaimed_path_generic_failure_witness:
  "\<not> can_handle_path ex_local ''weird://nowhere'' \<and> \<not> can_handle_path ex_s3 ''weird://nowhere''
   \<and> run_operation ex_repr (init [ex_local, ex_s3]) Rm ''weird://nowhere'' []
       = (Raise (Exc IOError ''Could not rm: weird://nowhere ()''), init [ex_local, ex_s3], [])
   \<and> run_operation ex_repr (init []) (PathJoin ''part-0'') ''weird://nowhere'' []
       = (Raise (Exc IOError (''Could not path_join: weird://nowhere ('' @ ex_repr ''part-0'' @ '',)'')),
          init [], [])"
proof -
  have declined:
    "\<forall>fs \<in> set (filesystems (init [ex_local, ex_s3])). \<not> can_handle_path fs ''weird://nowhere''"
    by (simp add: init_def ex_local_def ex_s3_def ex_backend_def)
  have empty: "\<forall>fs \<in> set (filesystems (init [])). \<not> can_handle_path fs ''weird://nowhere''"
    by (simp add: init_def)
  show ?thesis
    using declined [unfolded init_def]
      unclaimed_path_generic_failure [OF declined, of ex_repr Rm "[]"]
      unclaimed_path_generic_failure [OF empty, of ex_repr "PathJoin ''part-0''" "[]"]
    by simp
qed

text \<open>
  The claim C4 as the spec has it, that the failure for a path without owner has a kind of
  its own, fails: with the local backend and the object store both declining
  \<^verbatim>\<open>weird://nowhere\<close>, \<^verbatim>\<open>rm\<close> raises an \<^verbatim>\<open>IOError\<close>; with a third backend that owns the path and
  is down, \<^verbatim>\<open>rm\<close> raises that backend's \<^verbatim>\<open>IOError\<close>. Both failures have the class \<^verbatim>\<open>IOError\<close>.
\<close>

theorem no_owner_kind_same_as_owner_failed:
  "\<not> can_handle_path ex_local ''weird://nowhere'' \<and> \<not> can_handle_path ex_s3 ''weird://nowhere''
   \<and> can_handle_path ex_down ''weird://nowhere''
   \<and> fst (run_operation ex_repr (init [ex_local, ex_s3]) Rm ''weird://nowhere'' [])
       = Raise (Exc IOError ''Could not rm: weird://nowhere ()'')
   \<and> fst (run_operation ex_repr (init [ex_local, ex_s3, ex_down]) Rm ''weird://nowhere'' [])
       = Raise (Exc IOError ''down: connection refused'')
   \<and> raised_class (fst (run_operation ex_repr (init [ex_local, ex_s3]) Rm ''weird://nowhere'' []))
       = raised_class
           (fst (run_operation ex_repr (init [ex_local, ex_s3, ex_down]) Rm ''weird://nowhere'' []))"
  by (simp add: rm_def do_action_def init_def ex_local_def ex_s3_def ex_down_def ex_backend_def
        ex_raises_def call_action_def call_attribute_def could_not_message_def)

text \<open>
  C4, amended. The failure raised when no backend claims the path is a plain \<^verbatim>\<open>IOError\<close> with
  the message \<^verbatim>\<open>Could not <operation>: <path> <args>\<close>: it is of the I/O class, the class of the
  backends' own recoverable failures, not of a kind of its own.
\<close>

theorem unclaimed_path_failure_is_IOError:
  assumes "\<forall>fs \<in> set (filesystems self). \<not> can_handle_path fs path"
  shows "raised_class (fst (run_operation repr_arg self operation path w)) = Some IOError
       \<and> (\<exists>e. fst (run_operation repr_arg self operation path w) = Raise e
              \<and> isinstance_IOError e
              \<and> exc_message e = could_not_message repr_arg (operation_name operation) path
                                   (operation_args operation))"
  using do_action_loop_no_candidate [OF assms]
  by (simp add: run_operation_do_action do_action_def)

theorem unclaimed_path_failure_is_IOError_witness:
  "\<not> can_handle_path ex_local ''weird://nowhere'' \<and> \<not> can_handle_path ex_s3 ''weird://nowhere''
   \<and> raised_class (fst (run_operation ex_repr (init [ex_local, ex_s3]) Rm ''weird://nowhere'' []))
       = Some IOError"
proof -
  have declined:
    "\<forall>fs \<in> set (filesystems (init [ex_local, ex_s3])). \<not> can_handle_path fs ''weird://nowhere''"
    by (simp add: init_def ex_local_def ex_s3_def ex_backend_def)
  show ?thesis
    using declined [unfolded init_def]
      unclaimed_path_failure_is_IOError [OF declined, of ex_repr Rm "[]"]
    by simp
qed

subsection \<open>A failure outside the I/O class ends the dispatch\<close>

text \<open>
  C5. For every path and each pass-through operation: when a capable backend \<open>b\<close>, called
  in its turn, raises a failure \<open>e\<close> that is not of the I/O class, the Dispatcher raises
  \<open>e\<close> at once. No backend after \<open>b\<close> is called (the world is the one \<open>b\<close> left, and the
  registry cut after \<open>b\<close> gives the same outcome); \<open>e\<close> is none of the failures \<open>es\<close>
  recorded before, and it is not the generic failure.
\<close>

theorem non_io_failure_propagates:
  assumes "filesystems self = pre @ b # post"
    and "candidates_io_fail (operation_name operation) path (operation_args operation) [] pre w
           = Some (es, w1)"
    and "can_handle_path b path"
    and "call_action b (operation_name operation) path (operation_args operation) [] w1
           = (Raise e, w2)"
    and "\<not> isinstance_IOError e"
  shows "run_operation repr_arg self operation path w = (Raise e, self, w2)
       \<and> run_operation repr_arg (self\<lparr>filesystems := pre @ [b]\<rparr>) operation path w
           = (Raise e, self\<lparr>filesystems := pre @ [b]\<rparr>, w2)
       \<and> e \<notin> set es
       \<and> e \<noteq> Exc IOError (could_not_message repr_arg (operation_name operation) path
                              (operation_args operation))"
proof -
  from candidates_io_fail_all_io [OF assms(2)] assms(5) have "e \<notin> set es"
    by blast
  moreover from assms(5) have "e \<noteq> Exc IOError (could_not_message repr_arg
      (operation_name operation) path (operation_args operation))"
    by auto
  ultimately show ?thesis
    using assms(1) assms(4) assms(5)
    by (simp add: run_operation_do_action do_action_def
          do_action_loop_reaches [OF assms(2) assms(3)])
qed

theorem non_io_failure_propagates_witness:
  "candidates_io_fail ''du'' ''s3://logs/part-0'' [] [] [ex_down] []
     = Some ([Exc IOError ''down: connection refused''], [''down.du''])
   \<and> can_handle_path ex_misused ''s3://logs/part-0''
   \<and> call_action ex_misused ''du'' ''s3://logs/part-0'' [] [] [''down.du'']
       = (Raise (Exc (OtherException ''ValueError'') ''bad glob''), [''down.du'', ''misused.du''])
   \<and> \<not> isinstance_IOError (Exc (OtherException ''ValueError'') ''bad glob'')
   \<and> run_operation ex_repr (init [ex_down, ex_misused, ex_up]) Du ''s3://logs/part-0'' []
       = (Raise (Exc (OtherException ''ValueError'') ''bad glob''),
          init [ex_down, ex_misused, ex_up], [''down.du'', ''misused.du''])"
proof -
  have reg: "filesystems (init [ex_down, ex_misused, ex_up]) = [ex_down] @ ex_misused # [ex_up]"
    by (simp add: init_def)
  have pre: "candidates_io_fail (operation_name Du) ''s3://logs/part-0'' (operation_args Du) []
               [ex_down] []
             = Some ([Exc IOError ''down: connection refused''], [''down.du''])"
    by (simp add: ex_down_def ex_backend_def ex_raises_def call_action_def call_attribute_def)
  have own: "can_handle_path ex_misused ''s3://logs/part-0''"
    by (simp add: ex_misused_def ex_backend_def)
  have call: "call_action ex_misused (operation_name Du) ''s3://logs/part-0'' (operation_args Du) []
                [''down.du'']
              = (Raise (Exc (OtherException ''ValueError'') ''bad glob''),
                 [''down.du'', ''misused.du''])"
    by (simp add: ex_misused_def ex_backend_def ex_raises_def call_action_def call_attribute_def)
  have other: "\<not> isinstance_IOError (Exc (OtherException ''ValueError'') ''bad glob'')"
    by simp
  show ?thesis
    using pre own call non_io_failure_propagates [OF reg pre own call other, of ex_repr]
    by simp
qed

section \<open>Properties of the lookup of unknown operations\<close>

lemma getattr_scan_find:
  "getattr_scan fss name w =
     (case find (\<lambda>fs. hasattr fs name w) fss of
        None \<Rightarrow> Inl (Exc AttributeError name)
      | Some fs \<Rightarrow> getattr_fs fs name w)"
  by (induction fss) simp_all

lemma getattr_scan_ignores_ownership:
  "getattr_scan (map (\<lambda>fs. fs\<lparr>can_handle_path := owns fs\<rparr>) fss) name w = getattr_scan fss name w"
  by (induction fss) (simp_all add: hasattr_def)




text \<open>
  C7. For a name that the ordinary lookup does not find, \<^verbatim>\<open>__getattr__\<close> gives the attribute
  of the first backend in registry order that has it, and raises \<^verbatim>\<open>AttributeError(name)\<close>,
  which is not of the I/O class, when none has it. The paths the backends own play no part:
  the result is the same with any other ownership predicates. There is no fallback either:
  calling what was resolved is calling that one backend's attribute, whatever it returns or
  raises.
\<close>

theorem getattr_first_exposing_backend:
  "fst (getattr_composite self name w) =
     (case find (\<lambda>fs. hasattr fs name w) (filesystems self) of
        None \<Rightarrow> Inl (Exc AttributeError name)
      | Some fs \<Rightarrow> getattr_fs fs name w)
   \<and> \<not> isinstance_IOError (Exc AttributeError name)
   \<and> fst (getattr_composite
            (self\<lparr>filesystems := map (\<lambda>fs. fs\<lparr>can_handle_path := owns fs\<rparr>) (filesystems self)\<rparr>)
            name w)
       = fst (getattr_composite self name w)
   \<and> (find (\<lambda>fs. hasattr fs name w) (filesystems self) = Some b \<longrightarrow>
        call_attribute (fst (getattr_composite self name w)) path args kwargs w
          = call_action b name path args kwargs w)"
proof -
  have scan: "fst (getattr_composite self name w) =
     (case find (\<lambda>fs. hasattr fs name w) (filesystems self) of
        None \<Rightarrow> Inl (Exc AttributeError name)
      | Some fs \<Rightarrow> getattr_fs fs name w)"
    by (simp add: getattr_composite_def getattr_scan_find)
  have ownership: "fst (getattr_composite
            (self\<lparr>filesystems := map (\<lambda>fs. fs\<lparr>can_handle_path := owns fs\<rparr>) (filesystems self)\<rparr>)
            name w)
       = fst (getattr_composite self name w)"
    by (simp add: getattr_composite_def getattr_scan_ignores_ownership)
  have forwards: "call_attribute (fst (getattr_composite self name w)) path args kwargs w
          = call_action b name path args kwargs w"
    if "find (\<lambda>fs. hasattr fs name w) (filesystems self) = Some b"
    using that by (simp add: scan call_action_def)
  from scan ownership forwards show ?thesis
    by simp
qed

theorem getattr_first_exposing_backend_witness:
  "find (\<lambda>fs. hasattr fs ''get_hadoop_version'' [])
     (filesystems (init [ex_local, ex_hadoop_down, ex_hadoop])) = Some ex_hadoop_down
   \<and> \<not> can_handle_path ex_hadoop_down ''hdfs://logs''
   \<and> can_handle_path ex_hadoop ''hdfs://logs''
   \<and> call_attribute
       (fst (getattr_composite (init [ex_local, ex_hadoop_down, ex_hadoop]) ''get_hadoop_version'' []))
       ''hdfs://logs'' [] [] []
       = (Raise (Exc IOError ''no hadoop binary''), [''hadoop_down.get_hadoop_version''])
   \<and> fst (getattr_composite (init [ex_local, ex_hadoop_down, ex_hadoop]) ''no_such_operation'' [])
       = Inl (Exc AttributeError ''no_such_operation'')"
proof -
  have found:
    "find (\<lambda>fs. hasattr fs ''get_hadoop_version'' [])
       (filesystems (init [ex_local, ex_hadoop_down, ex_hadoop])) = Some ex_hadoop_down"
    by (simp add: init_def hasattr_def ex_local_def ex_hadoop_down_def ex_backend_def)
  have none:
    "find (\<lambda>fs. hasattr fs ''no_such_operation'' [])
       (filesystems (init [ex_local, ex_hadoop_down, ex_hadoop])) = None"
    by (simp add: init_def hasattr_def ex_local_def ex_hadoop_down_def ex_hadoop_def ex_backend_def)
  have call:
    "call_action ex_hadoop_down ''get_hadoop_version'' ''hdfs://logs'' [] [] []
       = (Raise (Exc IOError ''no hadoop binary''), [''hadoop_down.get_hadoop_version''])"
    by (simp add: call_action_def call_attribute_def ex_hadoop_down_def ex_backend_def
          ex_raises_def)
  have declines: "\<not> can_handle_path ex_hadoop_down ''hdfs://logs''"
    by (simp add: ex_hadoop_down_def ex_backend_def)
  have owns: "can_handle_path ex_hadoop ''hdfs://logs''"
    by (simp add: ex_hadoop_def ex_backend_def)
  from found
    getattr_first_exposing_backend
      [of "init [ex_local, ex_hadoop_down, ex_hadoop]" "''get_hadoop_version''" "[]"
          can_handle_path ex_hadoop_down "''hdfs://logs''" "[]" "[]"]
  have "call_attribute
          (fst (getattr_composite (init [ex_local, ex_hadoop_down, ex_hadoop])
                  ''get_hadoop_version'' []))
          ''hdfs://logs'' [] [] []
        = call_action ex_hadoop_down ''get_hadoop_version'' ''hdfs://logs'' [] [] []"
    by blast
  with call have forwarded:
    "call_attribute
       (fst (getattr_composite (init [ex_local, ex_hadoop_down, ex_hadoop])
               ''get_hadoop_version'' []))
       ''hdfs://logs'' [] [] []
     = (Raise (Exc IOError ''no hadoop binary''), [''hadoop_down.get_hadoop_version''])"
    by simp
  from none
    getattr_first_exposing_backend
      [of "init [ex_local, ex_hadoop_down, ex_hadoop]" "''no_such_operation''" "[]"
          can_handle_path ex_hadoop_down "''hdfs://logs''" "[]" "[]"]
  have unknown:
    "fst (getattr_composite (init [ex_local, ex_hadoop_down, ex_hadoop]) ''no_such_operation'' [])
       = Inl (Exc AttributeError ''no_such_operation'')"
    by simp
  from found declines owns forwarded unknown show ?thesis
    by blast
qed

section \<open>Properties of the line reader\<close>

lemma do_action_self: "fst (snd (do_action repr_arg self action path args kwargs w)) = self"
  by (simp add: do_action_def split: prod.splits)

lemma gen_next_self: "fst (snd (snd (gen_next repr_arg self g w))) = self"
proof (cases g)
  case (GenCreated path)
  from do_action_self [of repr_arg self "''_cat_file''" path "[]" "[]" w]
  show ?thesis
    unfolding GenCreated by (auto split: prod.splits outcome.splits)
qed (simp_all split: prod.splits)

lemma resume_raise_closes: "resume stream = (Raise e, g) \<Longrightarrow> g = GenClosed"
  by (cases stream rule: resume.cases) (auto split: if_splits)

lemma gen_next_raise_closes:
  "gen_next repr_arg self g w = (Raise e, g', self', w') \<Longrightarrow> g' = GenClosed"
proof (cases g)
  case (GenCreated path)
  assume "gen_next repr_arg self g w = (Raise e, g', self', w')"
  with GenCreated show ?thesis
    by (auto split: prod.splits outcome.splits dest: resume_raise_closes)
next
  case (GenSuspended stream)
  assume "gen_next repr_arg self g w = (Raise e, g', self', w')"
  with GenSuspended show ?thesis
    by (auto split: prod.splits dest: resume_raise_closes)
next
  case GenClosed
  assume "gen_next repr_arg self g w = (Raise e, g', self', w')"
  with GenClosed show ?thesis by simp
qed

lemma gen_nexts_closed:
  "gen_nexts n repr_arg self GenClosed w =
     (replicate n (Raise (Exc StopIteration [])), GenClosed, self, w)"
  by (induction n) simp_all

text \<open>
  The first request on a generator whose dispatch returns a stream goes on like a request
  on that stream, for the instance and in the world that the dispatch left.
\<close>

lemma gen_next_created_open:
  "do_action repr_arg self ''_cat_file'' path [] [] w = (Return stream, self1, w1) \<Longrightarrow>
   gen_next repr_arg self (GenCreated path) w = gen_next repr_arg self1 (GenSuspended stream) w1"
  by simp

lemma gen_next_created_raise:
  "do_action repr_arg self ''_cat_file'' path [] [] w = (Raise e, self1, w1) \<Longrightarrow>
   gen_next repr_arg self (GenCreated path) w = (Raise e, GenClosed, self1, w1)"
  by simp

text \<open>The lines at the head of a stream come out in their order, one per request.\<close>

lemma gen_nexts_lines:
  "gen_nexts (length lns) repr_arg self (GenSuspended (map Line lns @ rest)) w =
     (map Return lns, GenSuspended rest, self, w)"
  by (induction lns) simp_all

text \<open>
  C8. The generator that \<^verbatim>\<open>_cat_file\<close> returns goes forward only and once. A request that
  raises, be it \<^verbatim>\<open>StopIteration\<close> at the end of the stream or a failure, closes the generator,
  and a closed generator answers every further request with \<^verbatim>\<open>StopIteration\<close>, gives no line
  and calls no backend. Once a backend's open has succeeded, at the first request or at a
  later one, a line is handed over one per request with the rest of the stream staying
  behind, the lines at the head of the stream come out in their order, and a failure met in
  the stream is raised as it is, with no backend tried in its place: the world is the one
  the open left. (A \<^verbatim>\<open>StopIteration\<close> from the backend's iterator is the end of the stream.)
\<close>

theorem cat_file_single_pass:
  "(gen_next repr_arg self g w = (Raise e, g', self', w') \<longrightarrow> g' = GenClosed)
   \<and> gen_nexts n repr_arg self GenClosed w
       = (replicate n (Raise (Exc StopIteration [])), GenClosed, self, w)
   \<and> gen_next repr_arg self (GenSuspended (Line l # rest)) w
       = (Return l, GenSuspended rest, self, w)
   \<and> gen_next repr_arg self (GenSuspended []) w
       = (Raise (Exc StopIteration []), GenClosed, self, w)
   \<and> gen_next repr_arg self (GenSuspended (StreamError e2 # rest)) w
       = (Raise (if exc_class e2 = StopIteration then Exc StopIteration [] else e2),
          GenClosed, self, w)
   \<and> gen_nexts (length lns) repr_arg self (GenSuspended (map Line lns @ rest)) w
       = (map Return lns, GenSuspended rest, self, w)
   \<and> (do_action repr_arg self ''_cat_file'' path [] [] w = (Return stream, self1, w1) \<longrightarrow>
        gen_next repr_arg self (GenCreated path) w
          = gen_next repr_arg self1 (GenSuspended stream) w1)
   \<and> (do_action repr_arg self ''_cat_file'' path [] [] w
          = (Return (StreamError e2 # rest), self1, w1) \<longrightarrow>
        gen_next repr_arg self (GenCreated path) w
          = (Raise (if exc_class e2 = StopIteration then Exc StopIteration [] else e2),
             GenClosed, self1, w1))"
proof -
  have closes: "gen_next repr_arg self g w = (Raise e, g', self', w') \<longrightarrow> g' = GenClosed"
    using gen_next_raise_closes [of repr_arg self g w e g' self' w'] by blast
  have opened: "gen_next repr_arg self (GenCreated path) w
                  = gen_next repr_arg self1 (GenSuspended stream) w1"
    if "do_action repr_arg self ''_cat_file'' path [] [] w = (Return stream, self1, w1)"
    using that by (rule gen_next_created_open)
  have first_read: "gen_next repr_arg self (GenCreated path) w
          = (Raise (if exc_class e2 = StopIteration then Exc StopIteration [] else e2),
             GenClosed, self1, w1)"
    if "do_action repr_arg self ''_cat_file'' path [] [] w
          = (Return (StreamError e2 # rest), self1, w1)"
    using that by simp
  from closes opened first_read show ?thesis
    by (simp add: gen_nexts_closed gen_nexts_lines)
qed

theorem cat_file_single_pass_witness:
  "gen_next ex_repr (init [ex_cannot_open, ex_breaks, ex_reads])
     (GenSuspended [StreamError (Exc IOError ''connection reset''), Line ''three''])
     [''cannot_open._cat_file'', ''breaks._cat_file'']
     = (Raise (Exc IOError ''connection reset''), GenClosed,
        init [ex_cannot_open, ex_breaks, ex_reads],
        [''cannot_open._cat_file'', ''breaks._cat_file''])
   \<and> do_action ex_repr (init [ex_fails_first, ex_reads]) ''_cat_file'' ''/logs/part-0'' [] [] []
       = (Return [StreamError (Exc IOError ''read error''), Line ''late''],
          init [ex_fails_first, ex_reads], [''fails_first._cat_file''])
   \<and> gen_next ex_repr (init [ex_fails_first, ex_reads]) (GenCreated ''/logs/part-0'') []
       = (Raise (Exc IOError ''read error''), GenClosed,
          init [ex_fails_first, ex_reads], [''fails_first._cat_file''])
   \<and> gen_nexts 3 ex_repr (init [ex_cannot_open, ex_breaks, ex_reads]) (GenCreated ''/logs/part-0'') []
       = ([Return ''one'', Return ''two'', Raise (Exc IOError ''connection reset'')], GenClosed,
          init [ex_cannot_open, ex_breaks, ex_reads],
          [''cannot_open._cat_file'', ''breaks._cat_file''])
   \<and> gen_nexts 4 ex_repr (init [ex_reads]) (GenCreated ''/logs/part-0'') []
       = ([Return ''one'', Return ''two'', Return ''three'', Raise (Exc StopIteration [])],
          GenClosed, init [ex_reads], [''reads._cat_file''])
   \<and> gen_nexts 2 ex_repr (init [ex_reads]) GenClosed [''reads._cat_file'']
       = ([Raise (Exc StopIteration []), Raise (Exc StopIteration [])],
          GenClosed, init [ex_reads], [''reads._cat_file''])"
proof -
  have opened:
    "do_action ex_repr (init [ex_fails_first, ex_reads]) ''_cat_file'' ''/logs/part-0'' [] [] []
       = (Return [StreamError (Exc IOError ''read error''), Line ''late''],
          init [ex_fails_first, ex_reads], [''fails_first._cat_file''])"
    by (simp add: do_action_def init_def ex_fails_first_def ex_backend_def ex_returns_def
          call_action_def call_attribute_def)
  note single_pass =
    cat_file_single_pass
      [of ex_repr "init [ex_cannot_open, ex_breaks, ex_reads]"
          "GenSuspended [StreamError (Exc IOError ''connection reset''), Line ''three'']"
          "[''cannot_open._cat_file'', ''breaks._cat_file'']"
          "Exc IOError ''connection reset''" GenClosed
          "init [ex_cannot_open, ex_breaks, ex_reads]"
          "[''cannot_open._cat_file'', ''breaks._cat_file'']"
          0 "''zero''" "[Line ''three'']" "Exc IOError ''connection reset''" "[]"]
  from single_pass have broken:
    "gen_next ex_repr (init [ex_cannot_open, ex_breaks, ex_reads])
       (GenSuspended [StreamError (Exc IOError ''connection reset''), Line ''three''])
       [''cannot_open._cat_file'', ''breaks._cat_file'']
     = (Raise (Exc IOError ''connection reset''), GenClosed,
        init [ex_cannot_open, ex_breaks, ex_reads],
        [''cannot_open._cat_file'', ''breaks._cat_file''])"
    by simp
  from opened
    cat_file_single_pass
      [where repr_arg = ex_repr and self = "init [ex_fails_first, ex_reads]"
         and path = "''/logs/part-0''" and w = "[]"
         and ?e2.0 = "Exc IOError ''read error''" and rest = "[Line ''late'']"
         and ?self1.0 = "init [ex_fails_first, ex_reads]" and ?w1.0 = "[''fails_first._cat_file'']"]
  have first_read:
    "gen_next ex_repr (init [ex_fails_first, ex_reads]) (GenCreated ''/logs/part-0'') []
       = (Raise (Exc IOError ''read error''), GenClosed,
          init [ex_fails_first, ex_reads], [''fails_first._cat_file''])"
    by simp
  have three:
    "gen_nexts 3 ex_repr (init [ex_cannot_open, ex_breaks, ex_reads]) (GenCreated ''/logs/part-0'') []
       = ([Return ''one'', Return ''two'', Raise (Exc IOError ''connection reset'')], GenClosed,
          init [ex_cannot_open, ex_breaks, ex_reads],
          [''cannot_open._cat_file'', ''breaks._cat_file''])"
    by (simp add: numeral_3_eq_3 do_action_def init_def ex_cannot_open_def ex_breaks_def
          ex_backend_def ex_raises_def ex_returns_def call_action_def call_attribute_def)
  have four:
    "gen_nexts 4 ex_repr (init [ex_reads]) (GenCreated ''/logs/part-0'') []
       = ([Return ''one'', Return ''two'', Return ''three'', Raise (Exc StopIteration [])],
          GenClosed, init [ex_reads], [''reads._cat_file''])"
    by (simp add: eval_nat_numeral do_action_def init_def ex_reads_def
          ex_backend_def ex_returns_def call_action_def call_attribute_def)
  from cat_file_single_pass [where n = 2 and self = "init [ex_reads]" and repr_arg = ex_repr
      and w = "[''reads._cat_file'']"]
  have again:
    "gen_nexts 2 ex_repr (init [ex_reads]) GenClosed [''reads._cat_file'']
       = ([Raise (Exc StopIteration []), Raise (Exc StopIteration [])],
          GenClosed, init [ex_reads], [''reads._cat_file''])"
    by (simp add: eval_nat_numeral)
  from broken opened first_read three four again show ?thesis
    by blast
qed

text \<open>
  C9. The registry is the list given to the constructor, and no operation changes the
  Dispatcher: \<^verbatim>\<open>_do_action\<close>, the eight pass-through operations, \<^verbatim>\<open>__getattr__\<close>, the call of
  \<^verbatim>\<open>_cat_file\<close> and every request to its generator return the instance they were given.
\<close>

theorem registry_never_changes:
  "filesystems (init fss) = fss
   \<and> fst (snd (do_action repr_arg self action path args kwargs w)) = self
   \<and> fst (snd (run_operation repr_arg self operation path w)) = self
   \<and> snd (getattr_composite self name w) = self
   \<and> fst (snd (cat_file reader path w2)) = reader
   \<and> fst (snd (snd (gen_next repr_arg2 reader g w2))) = reader"
  by (simp add: init_def do_action_self run_operation_do_action getattr_composite_def cat_file_def
        gen_next_self)

text \<open>
  C10. Calling \<^verbatim>\<open>_cat_file\<close> returns a generator and does nothing else: it cannot raise, it
  leaves the world unchanged and asks no backend anything. The dispatch happens at the first
  request, which is the request that changes the world as \<^verbatim>\<open>_do_action\<close> does: what
  \<^verbatim>\<open>_do_action\<close> raises is raised then, and for a path that no backend claims that is the
  generic failure; when \<^verbatim>\<open>_do_action\<close> returns a stream, the first request gives the first
  line and keeps the rest, or ends at once on an empty stream, or raises the failure that the
  stream starts with.
\<close>

theorem cat_file_defers_dispatch:
  "cat_file self path w = (Return (GenCreated path), self, w)
   \<and> (do_action repr_arg self ''_cat_file'' path [] [] w = (Raise e, self1, w1) \<longrightarrow>
        gen_next repr_arg self (GenCreated path) w = (Raise e, GenClosed, self1, w1))
   \<and> (do_action repr_arg self ''_cat_file'' path [] [] w = (Return (Line l # rest), self1, w1) \<longrightarrow>
        gen_next repr_arg self (GenCreated path) w = (Return l, GenSuspended rest, self1, w1))
   \<and> (do_action repr_arg self ''_cat_file'' path [] [] w = (Return [], self1, w1) \<longrightarrow>
        gen_next repr_arg self (GenCreated path) w
          = (Raise (Exc StopIteration []), GenClosed, self1, w1))
   \<and> (do_action repr_arg self ''_cat_file'' path [] [] w
          = (Return (StreamError e2 # rest), self1, w1) \<longrightarrow>
        gen_next repr_arg self (GenCreated path) w
          = (Raise (if exc_class e2 = StopIteration then Exc StopIteration [] else e2),
             GenClosed, self1, w1))
   \<and> ((\<forall>fs \<in> set (filesystems self). \<not> can_handle_path fs path) \<longrightarrow>
        gen_next repr_arg self (GenCreated path) w
          = (Raise (Exc IOError (''Could not _cat_file: '' @ path @ '' ()'')), GenClosed, self, w))"
proof -
  have unowned: "gen_next repr_arg self (GenCreated path) w
          = (Raise (Exc IOError (''Could not _cat_file: '' @ path @ '' ()'')), GenClosed, self, w)"
    if "\<forall>fs \<in> set (filesystems self). \<not> can_handle_path fs path"
    using do_action_loop_no_candidate [OF that]
    by (simp add: do_action_def could_not_message_def)
  have raised: "gen_next repr_arg self (GenCreated path) w = (Raise e, GenClosed, self1, w1)"
    if "do_action repr_arg self ''_cat_file'' path [] [] w = (Raise e, self1, w1)"
    using that by (rule gen_next_created_raise)
  have line: "gen_next repr_arg self (GenCreated path) w = (Return l, GenSuspended rest, self1, w1)"
    if "do_action repr_arg self ''_cat_file'' path [] [] w = (Return (Line l # rest), self1, w1)"
    using gen_next_created_open [OF that] by simp
  have empty_stream: "gen_next repr_arg self (GenCreated path) w
                   = (Raise (Exc StopIteration []), GenClosed, self1, w1)"
    if "do_action repr_arg self ''_cat_file'' path [] [] w = (Return [], self1, w1)"
    using gen_next_created_open [OF that] by simp
  have failure: "gen_next repr_arg self (GenCreated path) w
          = (Raise (if exc_class e2 = StopIteration then Exc StopIteration [] else e2),
             GenClosed, self1, w1)"
    if "do_action repr_arg self ''_cat_file'' path [] [] w
          = (Return (StreamError e2 # rest), self1, w1)"
    using gen_next_created_open [OF that] by simp
  have call: "cat_file self path w = (Return (GenCreated path), self, w)"
    by (simp add: cat_file_def)
  from call raised line empty_stream failure unowned show ?thesis
    by blast
qed

theorem cat_file_defers_dispatch_witness:
  "\<not> can_handle_path ex_elsewhere ''weird://nowhere''
   \<and> cat_file (init [ex_elsewhere]) ''weird://nowhere'' []
       = (Return (GenCreated ''weird://nowhere''), init [ex_elsewhere], [])
   \<and> gen_next ex_repr (init [ex_elsewhere]) (GenCreated ''weird://nowhere'') []
       = (Raise (Exc IOError ''Could not _cat_file: weird://nowhere ()''), GenClosed,
          init [ex_elsewhere], [])
   \<and> do_action ex_repr (init [ex_cannot_open]) ''_cat_file'' ''/logs/part-0'' [] [] []
       = (Raise (Exc IOError ''cannot open''), init [ex_cannot_open], [''cannot_open._cat_file''])
   \<and> cat_file (init [ex_cannot_open]) ''/logs/part-0'' []
       = (Return (GenCreated ''/logs/part-0''), init [ex_cannot_open], [])
   \<and> gen_next ex_repr (init [ex_cannot_open]) (GenCreated ''/logs/part-0'') []
       = (Raise (Exc IOError ''cannot open''), GenClosed, init [ex_cannot_open],
          [''cannot_open._cat_file''])
   \<and> do_action ex_repr (init [ex_cannot_open, ex_reads]) ''_cat_file'' ''/logs/part-0'' [] [] []
       = (Return [Line ''one'', Line ''two'', Line ''three''], init [ex_cannot_open, ex_reads],
          [''cannot_open._cat_file'', ''reads._cat_file''])
   \<and> cat_file (init [ex_cannot_open, ex_reads]) ''/logs/part-0'' []
       = (Return (GenCreated ''/logs/part-0''), init [ex_cannot_open, ex_reads], [])
   \<and> gen_next ex_repr (init [ex_cannot_open, ex_reads]) (GenCreated ''/logs/part-0'') []
       = (Return ''one'', GenSuspended [Line ''two'', Line ''three''],
          init [ex_cannot_open, ex_reads], [''cannot_open._cat_file'', ''reads._cat_file''])
   \<and> do_action ex_repr (init [ex_empty]) ''_cat_file'' ''/logs/part-0'' [] [] []
       = (Return [], init [ex_empty], [''empty._cat_file''])
   \<and> gen_next ex_repr (init [ex_empty]) (GenCreated ''/logs/part-0'') []
       = (Raise (Exc StopIteration []), GenClosed, init [ex_empty], [''empty._cat_file''])
   \<and> do_action ex_repr (init [ex_fails_first, ex_reads]) ''_cat_file'' ''/logs/part-0'' [] [] []
       = (Return [StreamError (Exc IOError ''read error''), Line ''late''],
          init [ex_fails_first, ex_reads], [''fails_first._cat_file''])
   \<and> gen_next ex_repr (init [ex_fails_first, ex_reads]) (GenCreated ''/logs/part-0'') []
       = (Raise (Exc IOError ''read error''), GenClosed,
          init [ex_fails_first, ex_reads], [''fails_first._cat_file''])"
proof -
  have declines: "\<not> can_handle_path ex_elsewhere ''weird://nowhere''"
    by (simp add: ex_elsewhere_def ex_backend_def)
  then have nobody:
    "\<forall>fs \<in> set (filesystems (init [ex_elsewhere])). \<not> can_handle_path fs ''weird://nowhere''"
    by (simp add: init_def)
  have fails:
    "do_action ex_repr (init [ex_cannot_open]) ''_cat_file'' ''/logs/part-0'' [] [] []
       = (Raise (Exc IOError ''cannot open''), init [ex_cannot_open], [''cannot_open._cat_file''])"
    by (simp add: do_action_def init_def ex_cannot_open_def ex_backend_def ex_raises_def
          call_action_def call_attribute_def)
  have opens:
    "do_action ex_repr (init [ex_cannot_open, ex_reads]) ''_cat_file'' ''/logs/part-0'' [] [] []
       = (Return [Line ''one'', Line ''two'', Line ''three''], init [ex_cannot_open, ex_reads],
          [''cannot_open._cat_file'', ''reads._cat_file''])"
    by (simp add: do_action_def init_def ex_cannot_open_def ex_reads_def ex_backend_def
          ex_raises_def ex_returns_def call_action_def call_attribute_def)
  have opens_empty:
    "do_action ex_repr (init [ex_empty]) ''_cat_file'' ''/logs/part-0'' [] [] []
       = (Return [], init [ex_empty], [''empty._cat_file''])"
    by (simp add: do_action_def init_def ex_empty_def ex_backend_def ex_returns_def
          call_action_def call_attribute_def)
  have opens_broken:
    "do_action ex_repr (init [ex_fails_first, ex_reads]) ''_cat_file'' ''/logs/part-0'' [] [] []
       = (Return [StreamError (Exc IOError ''read error''), Line ''late''],
          init [ex_fails_first, ex_reads], [''fails_first._cat_file''])"
    by (simp add: do_action_def init_def ex_fails_first_def ex_backend_def ex_returns_def
          call_action_def call_attribute_def)
  from nobody
    cat_file_defers_dispatch
      [where self = "init [ex_elsewhere]" and path = "''weird://nowhere''" and w = "[]"
         and repr_arg = ex_repr]
  have unowned:
    "cat_file (init [ex_elsewhere]) ''weird://nowhere'' []
       = (Return (GenCreated ''weird://nowhere''), init [ex_elsewhere], [])
     \<and> gen_next ex_repr (init [ex_elsewhere]) (GenCreated ''weird://nowhere'') []
       = (Raise (Exc IOError ''Could not _cat_file: weird://nowhere ()''), GenClosed,
          init [ex_elsewhere], [])"
    by simp
  from fails
    cat_file_defers_dispatch
      [where self = "init [ex_cannot_open]" and path = "''/logs/part-0''" and w = "[]"
         and repr_arg = ex_repr and e = "Exc IOError ''cannot open''"
         and ?self1.0 = "init [ex_cannot_open]" and ?w1.0 = "[''cannot_open._cat_file'']"]
  have owned:
    "cat_file (init [ex_cannot_open]) ''/logs/part-0'' []
       = (Return (GenCreated ''/logs/part-0''), init [ex_cannot_open], [])
     \<and> gen_next ex_repr (init [ex_cannot_open]) (GenCreated ''/logs/part-0'') []
       = (Raise (Exc IOError ''cannot open''), GenClosed, init [ex_cannot_open],
          [''cannot_open._cat_file''])"
    by blast
  from opens
    cat_file_defers_dispatch
      [where self = "init [ex_cannot_open, ex_reads]" and path = "''/logs/part-0''" and w = "[]"
         and repr_arg = ex_repr and l = "''one''" and rest = "[Line ''two'', Line ''three'']"
         and ?self1.0 = "init [ex_cannot_open, ex_reads]"
         and ?w1.0 = "[''cannot_open._cat_file'', ''reads._cat_file'']"]
  have opened:
    "cat_file (init [ex_cannot_open, ex_reads]) ''/logs/part-0'' []
       = (Return (GenCreated ''/logs/part-0''), init [ex_cannot_open, ex_reads], [])
     \<and> gen_next ex_repr (init [ex_cannot_open, ex_reads]) (GenCreated ''/logs/part-0'') []
       = (Return ''one'', GenSuspended [Line ''two'', Line ''three''],
          init [ex_cannot_open, ex_reads], [''cannot_open._cat_file'', ''reads._cat_file''])"
    by blast
  from opens_empty
    cat_file_defers_dispatch
      [where self = "init [ex_empty]" and path = "''/logs/part-0''" and w = "[]"
         and repr_arg = ex_repr and ?self1.0 = "init [ex_empty]"
         and ?w1.0 = "[''empty._cat_file'']"]
  have ended:
    "gen_next ex_repr (init [ex_empty]) (GenCreated ''/logs/part-0'') []
       = (Raise (Exc StopIteration []), GenClosed, init [ex_empty], [''empty._cat_file''])"
    by blast
  from opens_broken
    cat_file_defers_dispatch
      [where self = "init [ex_fails_first, ex_reads]" and path = "''/logs/part-0''" and w = "[]"
         and repr_arg = ex_repr and ?e2.0 = "Exc IOError ''read error''" and rest = "[Line ''late'']"
         and ?self1.0 = "init [ex_fails_first, ex_reads]"
         and ?w1.0 = "[''fails_first._cat_file'']"]
  have broken:
    "gen_next ex_repr (init [ex_fails_first, ex_reads]) (GenCreated ''/logs/part-0'') []
       = (Raise (Exc IOError ''read error''), GenClosed,
          init [ex_fails_first, ex_reads], [''fails_first._cat_file''])"
    by simp
  from declines unowned fails owned opens opened opens_empty ended opens_broken broken
  show ?thesis
    by blast
qed

end
